theory Spec2Isabelle
  imports Complex_Main "HOL-Library.Option_ord"
begin

section \<open>Data model\<close>

text \<open>
  The dashboard (\<^verbatim>\<open>Dashboardv5.py\<close>) works on pandas data frames of daily prices.
  A cell of a frame is a float; the model keeps the one distinction the program depends
  on, whether the value is missing (NaN, \<open>None\<close> here) or a number (\<open>Some x\<close>, a real).
  Dates are day numbers. A frame is stored column by column, each column under its key,
  in column order; a well-formed frame has columns as long as its index.
\<close>

type_synonym date = int
type_synonym cell = "real option"

record 'k table =
  index :: "date list"
  cols :: "('k \<times> cell list) list"

text \<open>
  \<^verbatim>\<open>isinstance(df.columns, pd.MultiIndex)\<close> separates the two kinds of frame the
  program handles: flat column names (\<^verbatim>\<open>'Close'\<close>) and pairs
  (\<^verbatim>\<open>('Close', 'AAPL')\<close>) of a field and a ticker.
\<close>

datatype frame = Flat "string table" | Multi "(string \<times> string) table"

datatype exn = KeyError | ValueError | ProviderError

definition DataFrame :: "frame" where
  \<comment> \<open>\<^verbatim>\<open>pd.DataFrame()\<close>: no rows, no columns.\<close>
  "DataFrame = Flat \<lparr>index = [], cols = []\<rparr>"

definition table_empty :: "'k table \<Rightarrow> bool" where
  \<comment> \<open>\<^verbatim>\<open>df.empty\<close>: an axis of length 0.\<close>
  "table_empty t \<longleftrightarrow> index t = [] \<or> cols t = []"

fun frame_empty :: "frame \<Rightarrow> bool" where
  "frame_empty (Flat t) = table_empty t"
| "frame_empty (Multi t) = table_empty t"

definition column_names :: "'k table \<Rightarrow> 'k list" where
  "column_names t = map fst (cols t)"

definition getitem :: "'k table \<Rightarrow> 'k \<Rightarrow> exn + cell list" where
  \<comment> \<open>\<^verbatim>\<open>df[key]\<close>: the column, KeyError when there is none.\<close>
  "getitem t k = (case map_of (cols t) k of None \<Rightarrow> Inl KeyError | Some c \<Rightarrow> Inr c)"

definition setitem :: "'k table \<Rightarrow> 'k \<Rightarrow> cell list \<Rightarrow> 'k table" where
  \<comment> \<open>\<^verbatim>\<open>df[key] = values\<close>: replaces the column in place, or appends a new one.\<close>
  "setitem t k v =
     (if k \<in> set (column_names t)
      then t\<lparr>cols := map (\<lambda>(k', c). if k' = k then (k', v) else (k', c)) (cols t)\<rparr>
      else t\<lparr>cols := cols t @ [(k, v)]\<rparr>)"

section \<open>Local extrema: \<^verbatim>\<open>scipy.signal.argrelextrema\<close>\<close>

text \<open>
  \<^verbatim>\<open>find_support_resistance\<close> calls \<^verbatim>\<open>argrelextrema(prices, comparator, order=window)\<close>
  with the default \<^verbatim>\<open>mode='clip'\<close>. The library function is
  \<^verbatim>\<open>
  def _boolrelextrema(data, comparator, axis=0, order=1, mode='clip'):
      if (int(order) != order) or (order < 1):
          raise ValueError('Order must be an int >= 1')
      datalen = data.shape[axis]
      locs = np.arange(0, datalen)
      results = np.ones(data.shape, dtype=bool)
      main = data.take(locs, axis=axis, mode=mode)
      for shift in range(1, order + 1):
          plus = data.take(locs + shift, axis=axis, mode=mode)
          minus = data.take(locs - shift, axis=axis, mode=mode)
          results &= comparator(main, plus)
          results &= comparator(main, minus)
          if ~results.any():
              return results
      return results

  def argrelextrema(data, comparator, axis=0, order=1, mode='clip'):
      results = _boolrelextrema(data, comparator, axis, order, mode)
      return np.nonzero(results)
  \<close>
  \<^verbatim>\<open>take\<close> with \<^verbatim>\<open>mode='clip'\<close> replaces an index below 0 by 0 and an index past the
  end by the last index.
\<close>

definition take_clip :: "'a list \<Rightarrow> int \<Rightarrow> 'a" where
  "take_clip data i = data ! nat (min (max i 0) (int (length data) - 1))"

text \<open>The two comparators of the program; a comparison with NaN is false.\<close>

fun comparator_gt :: "cell \<Rightarrow> cell \<Rightarrow> bool" where
  \<comment> \<open>\<^verbatim>\<open>lambda x, y: x > y\<close>\<close>
  "comparator_gt (Some x) (Some y) = (x > y)"
| "comparator_gt _ _ = False"

fun comparator_lt :: "cell \<Rightarrow> cell \<Rightarrow> bool" where
  \<comment> \<open>\<^verbatim>\<open>lambda x, y: x < y\<close>\<close>
  "comparator_lt (Some x) (Some y) = (x < y)"
| "comparator_lt _ _ = False"

definition relextrema_step ::
  "(cell \<Rightarrow> cell \<Rightarrow> bool) \<Rightarrow> cell list \<Rightarrow> int \<Rightarrow> bool list \<Rightarrow> bool list" where
  \<comment> \<open>One pass of the loop body: both \<^verbatim>\<open>results &= ...\<close> lines.\<close>
  "relextrema_step comparator data shift results =
     map (\<lambda>i. (results ! i \<and> comparator (data ! i) (take_clip data (int i + shift)))
                \<and> comparator (data ! i) (take_clip data (int i - shift)))
       [0..<length data]"

fun relextrema_loop ::
  "(cell \<Rightarrow> cell \<Rightarrow> bool) \<Rightarrow> cell list \<Rightarrow> int list \<Rightarrow> bool list \<Rightarrow> bool list" where
  "relextrema_loop comparator data [] results = results"
| "relextrema_loop comparator data (shift # shifts) results =
     (let results' = relextrema_step comparator data shift results
      in if list_ex id results' then relextrema_loop comparator data shifts results'
         else results')"

definition boolrelextrema ::
  "cell list \<Rightarrow> (cell \<Rightarrow> cell \<Rightarrow> bool) \<Rightarrow> int \<Rightarrow> exn + bool list" where
  "boolrelextrema data comparator order =
     (if order < 1 then Inl ValueError
      else Inr (relextrema_loop comparator data [1..order]
                  (replicate (length data) True)))"

definition nonzero :: "bool list \<Rightarrow> nat list" where
  "nonzero results = filter (\<lambda>i. results ! i) [0..<length results]"

definition argrelextrema ::
  "cell list \<Rightarrow> (cell \<Rightarrow> cell \<Rightarrow> bool) \<Rightarrow> int \<Rightarrow> exn + nat list" where
  "argrelextrema data comparator order =
     (case boolrelextrema data comparator order of
        Inl e \<Rightarrow> Inl e
      | Inr results \<Rightarrow> Inr (nonzero results))"

text \<open>
  What the loop decides, as a predicate: position \<open>i\<close> is an extremum of order \<open>order\<close>
  when the comparator holds between its value and the value \<open>shift\<close> places to either
  side, for every shift from 1 to \<open>order\<close>, places outside the series read at the
  nearest end.
\<close>

definition is_extremum :: "(cell \<Rightarrow> cell \<Rightarrow> bool) \<Rightarrow> cell list \<Rightarrow> int \<Rightarrow> nat \<Rightarrow> bool" where
  "is_extremum comparator data order i \<longleftrightarrow>
     list_all (\<lambda>shift. comparator (data ! i) (take_clip data (int i + shift))
                     \<and> comparator (data ! i) (take_clip data (int i - shift))) [1..order]"

definition local_extrema :: "(cell \<Rightarrow> cell \<Rightarrow> bool) \<Rightarrow> cell list \<Rightarrow> int \<Rightarrow> cell list" where
  \<comment> \<open>The values at the extremal positions, in series order.\<close>
  "local_extrema comparator data order =
     map (\<lambda>i. data ! i) (filter (is_extremum comparator data order) [0..<length data])"

section \<open>The level detector: \<^verbatim>\<open>find_support_resistance\<close>\<close>

definition slice_to :: "'a list \<Rightarrow> int \<Rightarrow> 'a list" where
  \<comment> \<open>\<^verbatim>\<open>xs[:n]\<close>; a negative \<open>n\<close> counts from the end.\<close>
  "slice_to xs n = (if 0 \<le> n then take (nat n) xs else take (nat (int (length xs) + n)) xs)"

text \<open>
  The levels are sorted as numbers. The order on cells puts NaN below every number, a
  choice that is never used: no extremal value is NaN (lemma \<open>local_extrema_notna\<close>).
  Of several equal values \<^verbatim>\<open>set\<close> keeps one.
\<close>

definition sorted_set :: "cell list \<Rightarrow> cell list" where
  \<comment> \<open>\<^verbatim>\<open>sorted(list(set(levels)))\<close>: the distinct values, ascending.\<close>
  "sorted_set levels = sort (remdups levels)"

definition sorted_set_reverse :: "cell list \<Rightarrow> cell list" where
  \<comment> \<open>\<^verbatim>\<open>sorted(list(set(levels)), reverse=True)\<close>: the distinct values, descending.\<close>
  "sorted_set_reverse levels = rev (sort (remdups levels))"

definition closes :: "string table \<Rightarrow> cell list" where
  \<comment> \<open>The closing prices the detector works on: none for an empty frame or a frame
      with no \<^verbatim>\<open>Close\<close> column.\<close>
  "closes df =
     (if table_empty df then []
      else case getitem df ''Close'' of Inl e \<Rightarrow> [] | Inr prices \<Rightarrow> prices)"

definition find_support_resistance ::
  "string table \<Rightarrow> int \<Rightarrow> int \<Rightarrow> exn + (cell list \<times> cell list)" where
  "find_support_resistance df window num_levels =
     (if table_empty df \<or> ''Close'' \<notin> set (column_names df) then Inr ([], [])
      else case getitem df ''Close'' of
        Inl e \<Rightarrow> Inl e
      | Inr prices \<Rightarrow>
         (case argrelextrema prices comparator_gt window of
            Inl e \<Rightarrow> Inl e
          | Inr resistance_indices \<Rightarrow>
             (case argrelextrema prices comparator_lt window of
                Inl e \<Rightarrow> Inl e
              | Inr support_indices \<Rightarrow>
                 (let resistance_levels = map (\<lambda>i. prices ! i) resistance_indices;
                      support_levels = map (\<lambda>i. prices ! i) support_indices
                  in Inr (slice_to (sorted_set support_levels) num_levels,
                          slice_to (sorted_set_reverse resistance_levels) num_levels)))))"


section \<open>The fetcher: \<^verbatim>\<open>get_stock_data\<close>\<close>

text \<open>
  \<^verbatim>\<open>yf.download\<close> is the external provider: a parameter of the model, which answers
  with a frame or raises. \<^verbatim>\<open>DataFrame.dropna()\<close> (defaults \<^verbatim>\<open>axis=0, how='any'\<close>)
  keeps the rows in which no cell is missing. The decorator \<^verbatim>\<open>st.cache_data(ttl=3600)\<close>
  replays results this body has returned before; the model is the body.
\<close>

type_synonym provider = "string list \<Rightarrow> date \<Rightarrow> date \<Rightarrow> exn + frame"

definition row_cells :: "'k table \<Rightarrow> nat \<Rightarrow> cell list" where
  "row_cells t i = map (\<lambda>(k, c). c ! i) (cols t)"

definition table_rows :: "'k table \<Rightarrow> (date \<times> cell list) list" where
  \<comment> \<open>The frame read row by row: each date with its cells in column order.\<close>
  "table_rows t = map (\<lambda>i. (index t ! i, row_cells t i)) [0..<length (index t)]"

definition notna :: "cell list \<Rightarrow> bool" where
  "notna cells = list_all (\<lambda>c. c \<noteq> None) cells"

definition dropna_table :: "'k table \<Rightarrow> 'k table" where
  "dropna_table t =
     (let keep = filter (\<lambda>i. notna (row_cells t i)) [0..<length (index t)]
      in \<lparr>index = map (\<lambda>i. index t ! i) keep,
          cols = map (\<lambda>(k, c). (k, map (\<lambda>i. c ! i) keep)) (cols t)\<rparr>)"

fun dropna :: "frame \<Rightarrow> frame" where
  "dropna (Flat t) = Flat (dropna_table t)"
| "dropna (Multi t) = Multi (dropna_table t)"

fun frame_rows :: "frame \<Rightarrow> (date \<times> cell list) list" where
  "frame_rows (Flat t) = table_rows t"
| "frame_rows (Multi t) = table_rows t"

text \<open>
  The fetcher returns its result together with the provider calls it made, in order.
\<close>

datatype provider_call = Download "string list" date date

definition get_stock_data ::
  "provider \<Rightarrow> string list \<Rightarrow> date \<Rightarrow> date \<Rightarrow> provider_call list \<times> (exn + frame)" where
  "get_stock_data download tickers start_date end_date =
     (if tickers = [] then ([], Inr DataFrame)
      else ([Download tickers start_date end_date],
            case download tickers start_date end_date of
              Inl e \<Rightarrow> Inl e
            | Inr data \<Rightarrow> Inr (dropna data)))"

section \<open>The chart composer: \<^verbatim>\<open>plot_candlestick\<close>\<close>

text \<open>
  \<^verbatim>\<open>Series.rolling(window=p).mean()\<close> of pandas, with its default
  \<^verbatim>\<open>min_periods = window\<close> and a trailing window. Which positions of the result are
  defined is modelled exactly: position \<open>i\<close> is NaN when fewer than \<open>p\<close> observations
  (cells that are not NaN) lie among the positions \<open>i-p+1 .. i\<close> that exist, or none. A
  negative window is refused with a ValueError.

  The number at a position with enough observations is computed by pandas in 64-bit
  floating point, from a running sum over the series. The model does not compute it: it
  takes the computation as a parameter, \<open>fmean xs p i\<close> standing for the float pandas
  puts at position \<open>i\<close> of series \<open>xs\<close> for window \<open>p\<close> (a float may itself be NaN).
\<close>

type_synonym float_mean = "cell list \<Rightarrow> nat \<Rightarrow> nat \<Rightarrow> cell"

definition rolling_mean :: "float_mean \<Rightarrow> cell list \<Rightarrow> int \<Rightarrow> exn + cell list" where
  "rolling_mean fmean xs window =
     (if window < 0 then Inl ValueError
      else Inr (map (\<lambda>i.
             let obs = filter (\<lambda>c. c \<noteq> None)
                         (drop (Suc i - nat window) (take (Suc i) xs))
             in if nat window \<le> length obs \<and> obs \<noteq> []
                then fmean xs (nat window) i else None)
           [0..<length xs]))"

fun str_nat :: "nat \<Rightarrow> string" where
  "str_nat n = (if n < 10 then [char_of (48 + n)]
                else str_nat (n div 10) @ [char_of (48 + n mod 10)])"

declare str_nat.simps [simp del]

definition str_int :: "int \<Rightarrow> string" where
  "str_int i = (if i < 0 then CHR ''-'' # str_nat (nat (- i)) else str_nat (nat i))"

record chart =
  title :: string
  candle_x :: "date list"
  candle_open :: "cell list"
  candle_high :: "cell list"
  candle_low :: "cell list"
  candle_close :: "cell list"
  sma_trace :: "(string \<times> cell list) option"
  hlines :: "(string \<times> cell) list"
  chart_height :: int

definition bindE :: "exn + 'a \<Rightarrow> ('a \<Rightarrow> exn + 'b) \<Rightarrow> exn + 'b" where
  \<comment> \<open>Sequencing: an exception of the first step ends the computation.\<close>
  "bindE m f = (case m of Inl e \<Rightarrow> Inl e | Inr x \<Rightarrow> f x)"

definition loc_ticker :: "(string \<times> string) table \<Rightarrow> string \<Rightarrow> exn + string table" where
  \<comment> \<open>\<^verbatim>\<open>df.loc[:, (slice(None), ticker)]\<close>, then \<^verbatim>\<open>columns.droplevel(1)\<close>: the columns
      of the ticker under their field names; KeyError when the ticker has none.\<close>
  "loc_ticker df ticker =
     (let sel = filter (\<lambda>((field, t), c). t = ticker) (cols df)
      in if sel = [] then Inl KeyError
         else Inr \<lparr>index = index df, cols = map (\<lambda>((field, t), c). (field, c)) sel\<rparr>)"

fun select_plot_data :: "frame \<Rightarrow> string \<Rightarrow> exn + string table" where
  "select_plot_data (Multi t) ticker = loc_ticker t ticker"
| "select_plot_data (Flat t) ticker = Inr t"

fun after_plot :: "frame \<Rightarrow> string table \<Rightarrow> frame" where
  \<comment> \<open>For flat columns \<^verbatim>\<open>plot_data\<close> is \<^verbatim>\<open>df\<close> itself, so the caller's frame has
      the columns the call added; for a MultiIndex it is a copy.\<close>
  "after_plot (Flat t) plot_data = Flat plot_data"
| "after_plot (Multi t) plot_data = Multi t"

definition add_sma ::
  "float_mean \<Rightarrow> string table \<Rightarrow> cell list \<Rightarrow> bool \<Rightarrow> int
     \<Rightarrow> exn + (string table \<times> (string \<times> cell list) option)" where
  "add_sma fmean plot_data close show_sma sma_period =
     (if show_sma \<and> ''Close'' \<in> set (column_names plot_data)
      then bindE (rolling_mean fmean close sma_period) (\<lambda>y.
             Inr (setitem plot_data (''SMA_'' @ str_int sma_period) y,
                  Some (''SMA '' @ str_int sma_period, y)))
      else Inr (plot_data, None))"

definition candlestick_try ::
  "float_mean \<Rightarrow> frame \<Rightarrow> string \<Rightarrow> int \<Rightarrow> int \<Rightarrow> int \<Rightarrow> bool \<Rightarrow> int \<Rightarrow> exn + (frame \<times> chart)" where
  \<comment> \<open>The body of the \<^verbatim>\<open>try\<close> block.\<close>
  "candlestick_try fmean df ticker height sr_window sr_num_levels show_sma sma_period =
     bindE (select_plot_data df ticker) (\<lambda>plot_data.
     bindE (getitem plot_data ''Open'') (\<lambda>open.
     bindE (getitem plot_data ''High'') (\<lambda>high.
     bindE (getitem plot_data ''Low'') (\<lambda>low.
     bindE (getitem plot_data ''Close'') (\<lambda>close.
     bindE (add_sma fmean plot_data close show_sma sma_period) (\<lambda>(plot_data', sma).
     bindE (find_support_resistance plot_data' sr_window sr_num_levels)
       (\<lambda>(support_levels, resistance_levels).
         Inr (after_plot df plot_data',
              \<lparr>title = ticker @ '' Candlestick Chart'',
               candle_x = index plot_data,
               candle_open = open, candle_high = high,
               candle_low = low, candle_close = close,
               sma_trace = sma,
               hlines = map (\<lambda>s. (''S'', s)) support_levels
                        @ map (\<lambda>r. (''R'', r)) resistance_levels,
               chart_height = height\<rparr>))))))))"

datatype widget =
    Subheader string
  | PlotlyChart chart
  | WarningMissingOHLC string
  | WarningNotAvailable string

definition plot_candlestick ::
  "float_mean \<Rightarrow> frame \<Rightarrow> string \<Rightarrow> int \<Rightarrow> int \<Rightarrow> int \<Rightarrow> bool \<Rightarrow> int \<Rightarrow> exn + (frame \<times> widget)" where
  \<comment> \<open>\<^verbatim>\<open>except KeyError\<close> turns a KeyError into the warning; any other exception
      leaves the function.\<close>
  "plot_candlestick fmean df ticker height sr_window sr_num_levels show_sma sma_period =
     (case candlestick_try fmean df ticker height sr_window sr_num_levels show_sma sma_period of
        Inl KeyError \<Rightarrow> Inr (df, WarningMissingOHLC ticker)
      | Inl e \<Rightarrow> Inl e
      | Inr (df', fig) \<Rightarrow> Inr (df', PlotlyChart fig))"

section \<open>The page: sidebar values and the main content\<close>

record inputs =
  selected_tickers :: "string list"
  start_date :: date
  end_date :: date
  show_sma :: bool
  sma_period :: int
  sr_enabled :: bool
  sr_window_slider :: int
  sr_num_levels_slider :: int

definition CHART_COLUMNS :: nat where
  "CHART_COLUMNS = 3"

definition sr_window :: "inputs \<Rightarrow> int" where
  "sr_window u = (if sr_enabled u then sr_window_slider u else 20)"

definition sr_num_levels :: "inputs \<Rightarrow> int" where
  "sr_num_levels u = (if sr_enabled u then sr_num_levels_slider u else 0)"

text \<open>
  What a run of the page does, in order: the messages it shows, the call of
  \<^verbatim>\<open>get_stock_data\<close> and the provider calls made inside it, and the widgets it writes
  into the grid columns. A run ends normally or with an exception nothing catches.
\<close>

datatype event =
    Info_select_asset
  | Error_date_range
  | Call_get_stock_data "string list" date date
  | Provider provider_call
  | Error_fetching
  | Warning_no_data
  | Markdown_viewing date date
  | Columns nat
  | In_column nat widget

definition has_ticker :: "frame \<Rightarrow> string \<Rightarrow> bool" where
  \<comment> \<open>\<^verbatim>\<open>(('Close', ticker) in data.columns) or (ticker in data.columns)\<close>; for a
      MultiIndex the second test looks the name up in the first level.\<close>
  "has_ticker data ticker =
     (case data of
        Multi t \<Rightarrow> (''Close'', ticker) \<in> set (column_names t)
                   \<or> ticker \<in> set (map fst (column_names t))
      | Flat t \<Rightarrow> ticker \<in> set (column_names t))"

fun grid_loop ::
  "float_mean \<Rightarrow> inputs \<Rightarrow> frame \<Rightarrow> (nat \<times> string) list \<Rightarrow> event list \<times> exn option" where
  "grid_loop fmean u data [] = ([], None)"
| "grid_loop fmean u data ((i, ticker) # rest) =
     (let current_col = i mod CHART_COLUMNS;
          head = In_column current_col (Subheader ticker)
      in if has_ticker data ticker
         then (case plot_candlestick fmean data ticker 300
                      (if sr_enabled u then sr_window u else 0)
                      (if sr_enabled u then sr_num_levels u else 0)
                      (show_sma u) (sma_period u) of
                 Inl e \<Rightarrow> ([head], Some e)
               | Inr (data', w) \<Rightarrow>
                   (case grid_loop fmean u data' rest of
                      (events, r) \<Rightarrow> (head # In_column current_col w # events, r)))
         else (case grid_loop fmean u data rest of
                 (events, r) \<Rightarrow>
                   (head # In_column current_col (WarningNotAvailable ticker) # events, r)))"

definition main :: "float_mean \<Rightarrow> provider \<Rightarrow> inputs \<Rightarrow> event list \<times> exn option" where
  "main fmean download u =
     (if selected_tickers u = [] then ([Info_select_asset], None)
      else if start_date u \<ge> end_date u then ([Error_date_range], None)
      else
        (case get_stock_data download (selected_tickers u) (start_date u) (end_date u) of
           (calls, fetched) \<Rightarrow>
             (let called = Call_get_stock_data (selected_tickers u) (start_date u) (end_date u)
                             # map Provider calls;
                  (shown, data) = (case fetched of
                                     Inl e \<Rightarrow> (called @ [Error_fetching], DataFrame)
                                   | Inr d \<Rightarrow> (called, d))
              in if frame_empty data \<and> selected_tickers u \<noteq> []
                 then (shown @ [Warning_no_data], None)
                 else if \<not> frame_empty data
                 then (case grid_loop fmean u data (enumerate 0 (selected_tickers u)) of
                         (events, r) \<Rightarrow>
                           (shown @ [Markdown_viewing (start_date u) (end_date u),
                                     Columns CHART_COLUMNS] @ events, r))
                 else (shown, None))))"


text \<open>Predicates on what a run shows, for stating its properties.\<close>

fun is_fetch :: "event \<Rightarrow> bool" where
  "is_fetch (Call_get_stock_data tickers s e) = True"
| "is_fetch (Provider call) = True"
| "is_fetch ev = False"

fun is_cell_body :: "widget \<Rightarrow> bool" where
  \<comment> \<open>What fills a grid cell under its heading: a chart or one of the two warnings.\<close>
  "is_cell_body (Subheader t) = False"
| "is_cell_body w = True"

definition cell_events :: "nat \<times> string \<Rightarrow> widget \<Rightarrow> event list" where
  \<comment> \<open>The cell of the ticker at selection index \<open>i\<close>: heading and body, both written
      into column \<open>i mod CHART_COLUMNS\<close>.\<close>
  "cell_events = (\<lambda>(i, ticker) body.
     [In_column (i mod CHART_COLUMNS) (Subheader ticker), In_column (i mod CHART_COLUMNS) body])"

section \<open>Example inputs\<close>

definition close_frame :: "real list \<Rightarrow> string table" where
  \<comment> \<open>A frame with the given closing prices on consecutive days and no other column.\<close>
  "close_frame xs = \<lparr>index = map int [0..<length xs], cols = [(''Close'', map Some xs)]\<rparr>"

definition example_frame :: frame where
  \<comment> \<open>Four days of prices for ticker A, and closing prices of ticker B with a gap.\<close>
  "example_frame = Multi \<lparr>index = [1, 2, 3, 4],
     cols = [((''Open'', ''A''), [Some 1, Some 2, Some 3, Some 4]),
             ((''High'', ''A''), [Some 2, Some 6, Some 4, Some 5]),
             ((''Low'', ''A''), [Some 1, Some 2, Some 1, Some 3]),
             ((''Close'', ''A''), [Some 1, Some 5, Some 2, Some 4]),
             ((''Close'', ''B''), [Some 7, Some 8, None, Some 9])]\<rparr>"

definition example_mean :: float_mean where
  \<comment> \<open>A stand-in for the float computation in the examples: the exact mean of the
      observations in the window. No example below reads a value of it.\<close>
  "example_mean = (\<lambda>xs p i.
     let obs = map the (filter (\<lambda>c. c \<noteq> None) (drop (Suc i - p) (take (Suc i) xs)))
     in Some (sum_list obs / real (length obs)))"

definition example_download :: provider where
  "example_download = (\<lambda>tickers start_date end_date. Inr example_frame)"

definition example_inputs :: inputs where
  "example_inputs = \<lparr>selected_tickers = [''A'', ''B''], start_date = 1, end_date = 5,
     show_sma = False, sma_period = 20, sr_enabled = True,
     sr_window_slider = 5, sr_num_levels_slider = 3\<rparr>"

lemmas detector_defs =
  close_frame_def find_support_resistance_def table_empty_def column_names_def getitem_def
  argrelextrema_def boolrelextrema_def relextrema_step_def nonzero_def take_clip_def
  slice_to_def sorted_set_def sorted_set_reverse_def closes_def

lemmas page_defs =
  main_def get_stock_data_def example_download_def example_inputs_def example_frame_def
  dropna_table_def row_cells_def notna_def table_rows_def DataFrame_def table_empty_def
  has_ticker_def column_names_def plot_candlestick_def candlestick_try_def bindE_def
  loc_ticker_def getitem_def add_sma_def rolling_mean_def setitem_def
  find_support_resistance_def argrelextrema_def boolrelextrema_def relextrema_step_def
  nonzero_def take_clip_def slice_to_def sorted_set_def sorted_set_reverse_def
  sr_window_def sr_num_levels_def CHART_COLUMNS_def

section \<open>The extremum loop\<close>

lemma length_relextrema_step [simp]:
  "length (relextrema_step c d s r) = length d"
  by (simp add: relextrema_step_def)

lemma relextrema_step_nth:
  "i < length d \<Longrightarrow> relextrema_step c d s r ! i \<longleftrightarrow>
     r ! i \<and> c (d ! i) (take_clip d (int i + s)) \<and> c (d ! i) (take_clip d (int i - s))"
  by (simp add: relextrema_step_def)

lemma length_relextrema_loop:
  "length r = length d \<Longrightarrow> length (relextrema_loop c d ss r) = length d"
  by (induction ss arbitrary: r) (simp_all add: Let_def)

lemma relextrema_loop_nth:
  "i < length d \<Longrightarrow> relextrema_loop c d ss r ! i \<longleftrightarrow>
     r ! i \<and> list_all (\<lambda>s. c (d ! i) (take_clip d (int i + s))
                           \<and> c (d ! i) (take_clip d (int i - s))) ss"
proof (induction ss arbitrary: r)
  case Nil
  then show ?case by simp
next
  case (Cons s ss)
  let ?r' = "relextrema_step c d s r"
  show ?case
  proof (cases "list_ex id ?r'")
    case True
    then show ?thesis
      using Cons.IH [OF Cons.prems, of ?r'] Cons.prems
      by (simp add: Let_def relextrema_step_nth)
  next
    case False
    with Cons.prems have "\<not> ?r' ! i"
      by (auto simp: list_ex_iff in_set_conv_nth)
    with False show ?thesis
      using Cons.prems by (auto simp: Let_def relextrema_step_nth)
  qed
qed

lemma argrelextrema_eq:
  assumes "1 \<le> order"
  shows "argrelextrema d c order = Inr (filter (is_extremum c d order) [0..<length d])"
proof -
  let ?res = "relextrema_loop c d [1..order] (replicate (length d) True)"
  have len: "length ?res = length d"
    by (simp add: length_relextrema_loop)
  have "filter (\<lambda>i. ?res ! i) [0..<length d] = filter (is_extremum c d order) [0..<length d]"
    by (rule filter_cong) (simp_all add: relextrema_loop_nth is_extremum_def)
  with assms len show ?thesis
    by (simp add: argrelextrema_def boolrelextrema_def nonzero_def)
qed

lemma argrelextrema_raises:
  "order < 1 \<Longrightarrow> argrelextrema d c order = Inl ValueError"
  by (simp add: argrelextrema_def boolrelextrema_def)

lemma take_clip_below: "d \<noteq> [] \<Longrightarrow> take_clip d (int 0 - 1) = d ! 0"
  by (simp add: take_clip_def)

lemma take_clip_above: "d \<noteq> [] \<Longrightarrow> take_clip d (int (length d - 1) + 1) = d ! (length d - 1)"
  by (cases d) (simp_all add: take_clip_def)

lemma is_extremum_interior:
  assumes "1 \<le> order" "i < length d" "is_extremum c d order i" "\<And>x. \<not> c x x"
  shows "0 < i \<and> i + 1 < length d"
proof -
  have "(1::int) \<in> set [1..order]" using assms(1) by simp
  with assms(3) have s1: "c (d ! i) (take_clip d (int i + 1))" "c (d ! i) (take_clip d (int i - 1))"
    by (auto simp: is_extremum_def list_all_iff)
  have ne: "d \<noteq> []" using assms(2) by auto
  have "i \<noteq> 0"
    using s1(2) take_clip_below [OF ne] assms(4) by (cases "i = 0") auto
  moreover have "i \<noteq> length d - 1"
    using s1(1) take_clip_above [OF ne] assms(4) by (cases "i = length d - 1") auto
  ultimately show ?thesis using assms(2) by arith
qed

lemma comparator_gt_irrefl: "\<not> comparator_gt x x"
  by (cases x) simp_all

lemma comparator_lt_irrefl: "\<not> comparator_lt x x"
  by (cases x) simp_all

lemma comparator_gt_notna: "comparator_gt x y \<Longrightarrow> x \<noteq> None"
  by (cases x) simp_all

lemma comparator_lt_notna: "comparator_lt x y \<Longrightarrow> x \<noteq> None"
  by (cases x) simp_all

lemma is_extremum_first_shift:
  assumes "1 \<le> order" "is_extremum c d order i"
  shows "c (d ! i) (take_clip d (int i + 1))"
proof -
  have "(1::int) \<in> set [1..order]" using assms(1) by simp
  with assms(2) show ?thesis
    by (auto simp: is_extremum_def list_all_iff)
qed

lemma local_extrema_notna:
  assumes "1 \<le> order" "\<And>x y. c x y \<Longrightarrow> x \<noteq> None"
  shows "None \<notin> set (local_extrema c d order)"
  using is_extremum_first_shift [OF assms(1)] assms(2)
  by (fastforce simp: local_extrema_def)

lemma local_extrema_interior:
  assumes "1 \<le> order" "\<And>x. \<not> c x x" "v \<in> set (local_extrema c d order)"
  shows "\<exists>i. 0 < i \<and> i + 1 < length d \<and> d ! i = v"
  using assms is_extremum_interior [of order _ d c]
  by (auto simp: local_extrema_def)

lemma Close_in_columns:
  "''Close'' \<in> set (column_names df) \<longleftrightarrow> (\<exists>prices. getitem df ''Close'' = Inr prices)"
proof (cases "map_of (cols df) ''Close''")
  case None
  then have "''Close'' \<notin> fst ` set (cols df)"
    by (simp add: map_of_eq_None_iff)
  with None show ?thesis
    by (simp add: column_names_def getitem_def)
next
  case (Some c)
  then have "''Close'' \<in> fst ` set (cols df)"
    by (metis map_of_eq_None_iff option.distinct(1))
  with Some show ?thesis
    by (simp add: column_names_def getitem_def)
qed

lemma find_support_resistance_eq:
  assumes "1 \<le> window"
  shows "find_support_resistance df window num_levels =
           Inr (slice_to (sorted_set (local_extrema comparator_lt (closes df) window)) num_levels,
                slice_to (sorted_set_reverse (local_extrema comparator_gt (closes df) window))
                  num_levels)"
proof (cases "table_empty df \<or> ''Close'' \<notin> set (column_names df)")
  case True
  then have "closes df = []"
    by (auto simp: closes_def Close_in_columns split: sum.splits)
  with True show ?thesis
    by (simp add: find_support_resistance_def local_extrema_def sorted_set_def
        sorted_set_reverse_def slice_to_def)
next
  case False
  then obtain prices where p: "getitem df ''Close'' = Inr prices"
    by (auto simp: Close_in_columns)
  with False have "closes df = prices"
    by (simp add: closes_def)
  with False p assms show ?thesis
    by (simp add: find_support_resistance_def argrelextrema_eq local_extrema_def)
qed

lemma find_support_resistance_raises:
  assumes "window < 1" "\<not> table_empty df" "''Close'' \<in> set (column_names df)"
  shows "find_support_resistance df window num_levels = Inl ValueError"
proof -
  from assms(3) obtain prices where "getitem df ''Close'' = Inr prices"
    by (auto simp: Close_in_columns)
  with assms show ?thesis
    by (simp add: find_support_resistance_def argrelextrema_raises)
qed

lemma find_support_resistance_no_closes:
  assumes "table_empty df \<or> ''Close'' \<notin> set (column_names df)"
  shows "find_support_resistance df window num_levels = Inr ([], [])"
  using assms by (simp add: find_support_resistance_def)

lemma sorted_set_strict: "sorted_wrt (<) (sorted_set xs)"
  by (simp add: sorted_set_def strict_sorted_iff)

lemma sorted_set_reverse_strict: "sorted_wrt (>) (sorted_set_reverse xs)"
proof -
  have "sorted_wrt (<) (sort (remdups xs))"
    by (simp add: strict_sorted_iff)
  then show ?thesis
    by (simp add: sorted_set_reverse_def sorted_wrt_rev)
qed

lemma set_sorted_set [simp]: "set (sorted_set xs) = set xs"
  by (simp add: sorted_set_def)

lemma set_sorted_set_reverse [simp]: "set (sorted_set_reverse xs) = set xs"
  by (simp add: sorted_set_reverse_def)

lemma distinct_sorted_set: "distinct (sorted_set xs)"
  by (simp add: sorted_set_def)

lemma distinct_sorted_set_reverse: "distinct (sorted_set_reverse xs)"
  by (simp add: sorted_set_reverse_def)

lemma set_slice_to: "set (slice_to xs n) \<subseteq> set xs"
  by (auto simp: slice_to_def dest: in_set_takeD)


section \<open>Dropping incomplete rows, and the rolling mean\<close>

lemma row_cells_dropna_table:
  assumes "j < length (filter (\<lambda>i. notna (row_cells t i)) [0..<length (index t)])"
  shows "row_cells (dropna_table t) j =
           row_cells t (filter (\<lambda>i. notna (row_cells t i)) [0..<length (index t)] ! j)"
  using assms by (simp add: row_cells_def dropna_table_def Let_def split_def)

lemma table_rows_dropna_table:
  "table_rows (dropna_table t) = filter (\<lambda>(d, cells). notna cells) (table_rows t)"
proof -
  let ?keep = "filter (\<lambda>i. notna (row_cells t i)) [0..<length (index t)]"
  let ?row = "\<lambda>i. (index t ! i, row_cells t i)"
  have "table_rows (dropna_table t) =
          map (\<lambda>j. (index (dropna_table t) ! j, row_cells (dropna_table t) j)) [0..<length ?keep]"
    by (simp add: table_rows_def dropna_table_def Let_def)
  also have "\<dots> = map (\<lambda>j. ?row (?keep ! j)) [0..<length ?keep]"
    by (rule map_cong) (simp_all add: row_cells_dropna_table, simp add: dropna_table_def Let_def)
  also have "\<dots> = map ?row ?keep"
    by (rule nth_equalityI) simp_all
  also have "\<dots> = filter (\<lambda>(d, cells). notna cells) (map ?row [0..<length (index t)])"
    by (simp add: filter_map comp_def)
  finally show ?thesis
    by (simp add: table_rows_def)
qed

lemma frame_rows_dropna:
  "frame_rows (dropna data) = filter (\<lambda>(d, cells). notna cells) (frame_rows data)"
  by (cases data) (simp_all add: table_rows_dropna_table)

lemma filter_notna_Some: "filter (\<lambda>c. c \<noteq> None) (map Some zs) = map Some zs"
  by (induction zs) simp_all

lemma rolling_mean_Some:
  assumes "0 \<le> p"
  shows "rolling_mean fmean (map Some xs) p =
           Inr (map (\<lambda>i. if i + 1 < nat p \<or> p = 0 then None
                          else fmean (map Some xs) (nat p) i)
                  [0..<length xs])"
proof -
  have "(let obs = filter (\<lambda>c. c \<noteq> None)
                     (drop (Suc i - nat p) (take (Suc i) (map Some xs)))
         in if nat p \<le> length obs \<and> obs \<noteq> []
            then fmean (map Some xs) (nat p) i else None)
        = (if i + 1 < nat p \<or> p = 0 then None else fmean (map Some xs) (nat p) i)"
    if "i < length xs" for i
  proof -
    let ?obs = "map Some (drop (Suc i - nat p) (take (Suc i) xs))"
    have obs: "filter (\<lambda>c. c \<noteq> None)
                 (drop (Suc i - nat p) (take (Suc i) (map Some xs))) = ?obs"
      by (simp add: take_map drop_map filter_notna_Some)
    have len: "length ?obs = min (Suc i) (nat p)"
      using that by simp
    show ?thesis
      unfolding obs Let_def using len assms by auto
  qed
  then show ?thesis
    using assms by (simp add: rolling_mean_def)
qed

section \<open>The composer and the grid loop\<close>

lemma notna_iff: "notna cells \<longleftrightarrow> None \<notin> set cells"
proof (induction cells)
  case Nil
  then show ?case by (simp add: notna_def)
next
  case (Cons a cells)
  then show ?case by (cases a) (simp_all add: notna_def)
qed

lemma getitem_in_columns: "getitem t k = Inr c \<Longrightarrow> k \<in> set (column_names t)"
proof -
  assume "getitem t k = Inr c"
  then have "map_of (cols t) k \<noteq> None"
    by (auto simp: getitem_def split: option.splits)
  then show ?thesis
    by (simp add: map_of_eq_None_iff column_names_def)
qed

lemma getitem_raises: "getitem t k = Inl e \<Longrightarrow> e = KeyError"
  by (simp add: getitem_def split: option.splits)

lemma select_plot_data_raises: "select_plot_data df ticker = Inl e \<Longrightarrow> e = KeyError"
  by (cases df) (simp_all add: loc_ticker_def Let_def split: if_splits)

lemma add_sma_returns:
  assumes "sma_on \<Longrightarrow> 0 \<le> p"
  shows "\<exists>r. add_sma fmean plot_data close sma_on p = Inr r"
  using assms by (cases sma_on) (auto simp: add_sma_def rolling_mean_def bindE_def)

lemma candlestick_try_raises:
  assumes "candlestick_try fmean df ticker h w n sma_on p = Inl e"
    and "1 \<le> w" and "sma_on \<Longrightarrow> 0 \<le> p"
  shows "e = KeyError"
proof -
  from add_sma_returns [OF assms(3)] have sma: "add_sma fmean pd cl sma_on p \<noteq> Inl e'" for pd cl e'
    by (metis Inl_Inr_False)
  show ?thesis
    using assms(1) sma
    by (auto simp: candlestick_try_def bindE_def find_support_resistance_eq [OF assms(2)]
        split: sum.splits dest: getitem_raises select_plot_data_raises)
qed

lemma plot_candlestick_returns:
  assumes "1 \<le> w" and "sma_on \<Longrightarrow> 0 \<le> p"
  shows "\<exists>df' body. plot_candlestick fmean df ticker h w n sma_on p = Inr (df', body)
           \<and> is_cell_body body"
proof (cases "candlestick_try fmean df ticker h w n sma_on p")
  case (Inl e)
  with candlestick_try_raises [OF Inl assms] show ?thesis
    by (simp add: plot_candlestick_def)
next
  case (Inr r)
  then show ?thesis
    by (cases r) (simp add: plot_candlestick_def)
qed

lemma cell_events_pair:
  "cell_events (i, ticker) body =
     [In_column (i mod CHART_COLUMNS) (Subheader ticker), In_column (i mod CHART_COLUMNS) body]"
  by (simp add: cell_events_def)

lemma grid_loop_places_every_ticker:
  assumes "sr_enabled u" and "1 \<le> sr_window_slider u"
    and "show_sma u \<Longrightarrow> 0 \<le> sma_period u"
  shows "\<exists>bodies. length bodies = length tickers \<and> list_all is_cell_body bodies
           \<and> grid_loop fmean u data (enumerate k tickers) =
               (concat (map2 cell_events (enumerate k tickers) bodies), None)"
proof (induction tickers arbitrary: k data)
  case Nil
  then show ?case by simp
next
  case (Cons t ts)
  show ?case
  proof (cases "has_ticker data t")
    case True
    from plot_candlestick_returns [of "sr_window u" "show_sma u" "sma_period u" fmean data t 300
        "sr_num_levels u"] assms
    obtain data' body where
      plot: "plot_candlestick fmean data t 300 (sr_window u) (sr_num_levels u)
               (show_sma u) (sma_period u) = Inr (data', body)"
      and body: "is_cell_body body"
      by (auto simp: sr_window_def)
    from Cons.IH [where k = "Suc k" and data = data'] obtain bodies where
      "length bodies = length ts" "list_all is_cell_body bodies"
      "grid_loop fmean u data' (enumerate (Suc k) ts) =
         (concat (map2 cell_events (enumerate (Suc k) ts) bodies), None)"
      by blast
    with True plot body assms(1) have
      "length (body # bodies) = length (t # ts) \<and> list_all is_cell_body (body # bodies)
       \<and> grid_loop fmean u data (enumerate k (t # ts)) =
           (concat (map2 cell_events (enumerate k (t # ts)) (body # bodies)), None)"
      by (simp add: cell_events_pair Let_def)
    then show ?thesis by blast
  next
    case False
    from Cons.IH [where k = "Suc k" and data = data] obtain bodies where
      "length bodies = length ts" "list_all is_cell_body bodies"
      "grid_loop fmean u data (enumerate (Suc k) ts) =
         (concat (map2 cell_events (enumerate (Suc k) ts) bodies), None)"
      by blast
    with False have
      "length (WarningNotAvailable t # bodies) = length (t # ts)
       \<and> list_all is_cell_body (WarningNotAvailable t # bodies)
       \<and> grid_loop fmean u data (enumerate k (t # ts)) =
           (concat (map2 cell_events (enumerate k (t # ts)) (WarningNotAvailable t # bodies)),
            None)"
      by (simp add: cell_events_pair Let_def)
    then show ?thesis by blast
  qed
qed

section \<open>Claims about the level detector\<close>

text \<open>
  C1. For the closing prices 1, 5, 2, 6, 1, 7, 1 with window 1 and at most 3 levels the
  detector returns the support levels 1, 2 (ascending) and the resistance levels 7, 6, 5
  (descending).
\<close>

theorem scenario_A:
  "find_support_resistance (close_frame [1, 5, 2, 6, 1, 7, 1]) 1 3 =
     Inr ([Some 1, Some 2], [Some 7, Some 6, Some 5])"
  by (simp add: detector_defs upto.simps upt_rec)

text \<open>
  C2, as the claim states it, fails: a series shorter than \<open>2 * window + 1\<close> can have
  levels, because a neighbour outside the series is read at the nearest end. Prices
  1, 5, 2 with window 2 give the resistance level 5.
\<close>

theorem short_series_counterexample:
  "(1::int) \<le> 2 \<and> int (length (closes (close_frame [1, 5, 2]))) < 2 * 2 + 1
   \<and> find_support_resistance (close_frame [1, 5, 2]) 2 3 = Inr ([], [Some 5])"
  by (simp add: detector_defs upto.simps upt_rec)

text \<open>
  C2, amended. For every window of at least 1, a series of fewer than 3 closing prices
  has no level: the detector returns two empty lists.
\<close>

theorem fewer_than_three_points_no_levels:
  assumes "1 \<le> window" and "length (closes df) < 3"
  shows "find_support_resistance df window num_levels = Inr ([], [])"
proof -
  have none: "local_extrema c (closes df) window = []" if "\<And>x. \<not> c x x" for c
  proof (rule ccontr)
    assume "local_extrema c (closes df) window \<noteq> []"
    then obtain v where "v \<in> set (local_extrema c (closes df) window)"
      by (cases "local_extrema c (closes df) window") auto
    from local_extrema_interior [OF assms(1) that this] assms(2) show False
      by auto
  qed
  show ?thesis
    using assms(1)
    by (simp add: find_support_resistance_eq none comparator_gt_irrefl comparator_lt_irrefl
        sorted_set_def sorted_set_reverse_def slice_to_def)
qed

theorem fewer_than_three_points_no_levels_witness:
  "(1::int) \<le> 4 \<and> length (closes (close_frame [3, 8])) < 3
   \<and> find_support_resistance (close_frame [3, 8]) 4 3 = Inr ([], [])"
  using fewer_than_three_points_no_levels [of 4 "close_frame [3, 8]" 3]
  by (simp add: close_frame_def closes_def table_empty_def getitem_def)

text \<open>
  C3. The detector raises exactly when it is given a window below 1 and a frame that is
  not empty and has a \<^verbatim>\<open>Close\<close> column; the exception is then the ValueError of the
  extremum search. So an empty frame, a frame without closing prices and a short series
  with a window of at least 1 all return a pair of lists, but the parameters the page
  passes when the feature is switched off, window 0 and 0 levels, make the detector
  raise on every frame that has closing prices, and the composer lets the exception
  through.
\<close>

theorem detector_raises_iff:
  "((\<exists>e. find_support_resistance df window num_levels = Inl e)
      \<longleftrightarrow> window < 1 \<and> \<not> table_empty df \<and> ''Close'' \<in> set (column_names df))
   \<and> find_support_resistance df window num_levels \<noteq> Inl KeyError
   \<and> find_support_resistance (close_frame [1, 5, 2]) 0 0 = Inl ValueError
   \<and> plot_candlestick fmean example_frame ''A'' 300 0 0 False 20 = Inl ValueError"
proof -
  have run: "find_support_resistance (close_frame [1, 5, 2]) 0 0 = Inl ValueError"
    by (simp add: detector_defs)
  have plot: "plot_candlestick fmean example_frame ''A'' 300 0 0 False 20 = Inl ValueError"
    by (simp add: page_defs)
  show ?thesis
  proof (cases "table_empty df \<or> ''Close'' \<notin> set (column_names df)")
    case True
    then show ?thesis
      using run plot by (auto simp: find_support_resistance_no_closes)
  next
    case closes: False
    show ?thesis
    proof (cases "window < 1")
      case True
      with closes run plot show ?thesis
        by (simp add: find_support_resistance_raises)
    next
      case False
      with run plot show ?thesis
        by (simp add: find_support_resistance_eq)
    qed
  qed
qed

text \<open>
  C4. With 0 levels requested the detector returns two empty lists for every window of
  at least 1, and for every window when the frame has no closing prices; for a window
  below 1 and a frame with closing prices it raises instead.
\<close>

theorem zero_levels_requested:
  "find_support_resistance df window 0 =
     (if window < 1 \<and> \<not> table_empty df \<and> ''Close'' \<in> set (column_names df)
      then Inl ValueError else Inr ([], []))"
proof (cases "table_empty df \<or> ''Close'' \<notin> set (column_names df)")
  case True
  then show ?thesis
    by (auto simp: find_support_resistance_no_closes)
next
  case False
  show ?thesis
  proof (cases "window < 1")
    case True
    with False show ?thesis
      by (simp add: find_support_resistance_raises)
  next
    case w: False
    then show ?thesis
      by (simp add: find_support_resistance_eq slice_to_def)
  qed
qed

text \<open>
  C5. For every frame, every window of at least 1 and every number of levels of at
  least 0, the detector returns; the support levels are strictly ascending, the
  resistance levels strictly descending, neither has a value twice, neither is longer
  than the number of levels, and each is the first so many of the distinct extremal
  values in its order. No level is NaN.
\<close>

theorem levels_sorted_distinct_truncated:
  assumes "1 \<le> window" and "0 \<le> num_levels"
  shows "\<exists>support resistance.
     find_support_resistance df window num_levels = Inr (support, resistance)
     \<and> sorted_wrt (<) support \<and> distinct support \<and> length support \<le> nat num_levels
     \<and> sorted_wrt (>) resistance \<and> distinct resistance
     \<and> length resistance \<le> nat num_levels
     \<and> support = take (nat num_levels)
         (sorted_list_of_set (set (local_extrema comparator_lt (closes df) window)))
     \<and> resistance = take (nat num_levels)
         (rev (sorted_list_of_set (set (local_extrema comparator_gt (closes df) window))))
     \<and> None \<notin> set support \<and> None \<notin> set resistance"
proof -
  let ?lo = "local_extrema comparator_lt (closes df) window"
  let ?hi = "local_extrema comparator_gt (closes df) window"
  let ?s = "take (nat num_levels) (sorted_set ?lo)"
  let ?r = "take (nat num_levels) (sorted_set_reverse ?hi)"
  have eq: "find_support_resistance df window num_levels = Inr (?s, ?r)"
    using assms by (simp add: find_support_resistance_eq slice_to_def)
  have s1: "sorted_wrt (<) ?s"
    by (rule sorted_wrt_take) (rule sorted_set_strict)
  have s2: "distinct ?s"
    by (rule distinct_take) (rule distinct_sorted_set)
  have r1: "sorted_wrt (>) ?r"
    by (rule sorted_wrt_take) (rule sorted_set_reverse_strict)
  have r2: "distinct ?r"
    by (rule distinct_take) (rule distinct_sorted_set_reverse)
  have len: "length ?s \<le> nat num_levels" "length ?r \<le> nat num_levels"
    by simp_all
  have s3: "?s = take (nat num_levels) (sorted_list_of_set (set ?lo))"
    by (simp add: sorted_set_def sorted_list_of_set_sort_remdups)
  have r3: "?r = take (nat num_levels) (rev (sorted_list_of_set (set ?hi)))"
    by (simp add: sorted_set_reverse_def sorted_list_of_set_sort_remdups)
  have "None \<notin> set (sorted_set ?lo)"
    using local_extrema_notna [OF assms(1), of comparator_lt] comparator_lt_notna by simp
  then have s4: "None \<notin> set ?s"
    by (auto dest: in_set_takeD)
  have "None \<notin> set (sorted_set_reverse ?hi)"
    using local_extrema_notna [OF assms(1), of comparator_gt] comparator_gt_notna by simp
  then have r4: "None \<notin> set ?r"
    by (auto dest: in_set_takeD)
  from eq s1 s2 len(1) r1 r2 len(2) s3 r3 s4 r4 show ?thesis
    by blast
qed

theorem levels_sorted_distinct_truncated_witness:
  "(1::int) \<le> 1 \<and> (0::int) \<le> 2
   \<and> find_support_resistance (close_frame [1, 5, 2, 6, 1, 7, 1]) 1 2 =
       Inr ([Some 1, Some 2], [Some 7, Some 6])
   \<and> sorted_wrt (<) [Some 1, Some (2::real)] \<and> sorted_wrt (>) [Some 7, Some (6::real)]"
proof -
  have h1: "(1::int) \<le> 1" and h2: "(0::int) \<le> 2"
    by simp_all
  have run: "find_support_resistance (close_frame [1, 5, 2, 6, 1, 7, 1]) 1 2 =
       Inr ([Some 1, Some 2], [Some 7, Some 6])"
    by (simp add: detector_defs upto.simps upt_rec)
  from levels_sorted_distinct_truncated [OF h1 h2, of "close_frame [1, 5, 2, 6, 1, 7, 1]"]
  obtain support resistance where
    "find_support_resistance (close_frame [1, 5, 2, 6, 1, 7, 1]) 1 2 = Inr (support, resistance)"
    "sorted_wrt (<) support" "sorted_wrt (>) resistance"
    by blast
  with run h1 h2 show ?thesis
    by simp
qed

text \<open>
  C10. For every series of closing prices and every window of at least 1, neither the
  first nor the last position is found as a local maximum or minimum, and every level
  the detector returns is the price at a position strictly between them.
\<close>

theorem boundary_never_extremum:
  assumes "1 \<le> window"
  shows "\<exists>maxima minima support resistance.
           argrelextrema prices comparator_gt window = Inr maxima
         \<and> argrelextrema prices comparator_lt window = Inr minima
         \<and> 0 \<notin> set maxima \<and> length prices - 1 \<notin> set maxima
         \<and> 0 \<notin> set minima \<and> length prices - 1 \<notin> set minima
         \<and> find_support_resistance df window num_levels = Inr (support, resistance)
         \<and> list_all (\<lambda>v. \<exists>i. 0 < i \<and> i + 1 < length (closes df) \<and> closes df ! i = v)
              (support @ resistance)"
proof -
  let ?found = "\<lambda>c. filter (is_extremum c prices window) [0..<length prices]"
  have inner: "0 < i \<and> i + 1 < length prices"
    if "i \<in> set (?found c)" and irrefl: "\<And>x. \<not> c x x" for i c
  proof -
    from that(1) have a: "i < length prices" and b: "is_extremum c prices window i"
      by simp_all
    show ?thesis
      by (rule is_extremum_interior [where c = c, OF assms a b]) (rule irrefl)
  qed
  have ends: "0 \<notin> set (?found c) \<and> length prices - 1 \<notin> set (?found c)"
    if "\<And>x. \<not> c x x" for c
    using inner [where c = c, OF _ that] by fastforce
  let ?support = "slice_to (sorted_set (local_extrema comparator_lt (closes df) window))
                    num_levels"
  let ?resistance = "slice_to (sorted_set_reverse
                       (local_extrema comparator_gt (closes df) window)) num_levels"
  have ret: "find_support_resistance df window num_levels = Inr (?support, ?resistance)"
    using assms by (rule find_support_resistance_eq)
  have "\<exists>i. 0 < i \<and> i + 1 < length (closes df) \<and> closes df ! i = v"
    if "v \<in> set (?support @ ?resistance)" for v
  proof -
    from that set_slice_to [of _ num_levels] have
      "v \<in> set (local_extrema comparator_lt (closes df) window)
       \<or> v \<in> set (local_extrema comparator_gt (closes df) window)"
      by fastforce
    then show ?thesis
      using local_extrema_interior [where c = comparator_lt, OF assms comparator_lt_irrefl]
        local_extrema_interior [where c = comparator_gt, OF assms comparator_gt_irrefl]
      by blast
  qed
  then have origin:
    "list_all (\<lambda>v. \<exists>i. 0 < i \<and> i + 1 < length (closes df) \<and> closes df ! i = v)
       (?support @ ?resistance)"
    unfolding list_all_iff by blast
  from ends [of comparator_gt] ends [of comparator_lt] ret origin assms show ?thesis
    by (simp add: argrelextrema_eq comparator_gt_irrefl comparator_lt_irrefl)
qed

theorem boundary_never_extremum_witness:
  "(1::int) \<le> 1
   \<and> argrelextrema [Some 1, Some 5, Some 2] comparator_gt 1 = Inr [1]
   \<and> argrelextrema [Some 1, Some 5, Some 2] comparator_lt 1 = Inr []
   \<and> find_support_resistance (close_frame [1, 5, 2]) 1 3 = Inr ([], [Some 5])
   \<and> closes (close_frame [1, 5, 2]) ! 1 = Some 5"
proof -
  have h: "(1::int) \<le> 1"
    by simp
  have run: "argrelextrema [Some 1, Some 5, Some 2] comparator_gt 1 = Inr [1]"
    "argrelextrema [Some 1, Some 5, Some 2] comparator_lt 1 = Inr []"
    "find_support_resistance (close_frame [1, 5, 2]) 1 3 = Inr ([], [Some 5])"
    "closes (close_frame [1, 5, 2]) ! 1 = Some 5"
    by (simp_all add: detector_defs upto.simps upt_rec)
  from boundary_never_extremum [OF h, of "[Some 1, Some 5, Some 2]" "close_frame [1, 5, 2]" 3]
  obtain maxima where "argrelextrema [Some 1, Some 5, Some 2] comparator_gt 1 = Inr maxima"
    "0 \<notin> set maxima"
    by blast
  with run h show ?thesis
    by simp
qed

section \<open>Claims about the fetcher, the composer and the page\<close>

text \<open>
  C6, as the claim states it, fails: with no ticker selected the page shows the notice
  to select an asset, whatever the dates are, and the message about the date range does
  not appear.
\<close>

theorem invalid_date_range_counterexample:
  "end_date (example_inputs\<lparr>selected_tickers := [], start_date := 5, end_date := 3\<rparr>)
     \<le> start_date (example_inputs\<lparr>selected_tickers := [], start_date := 5, end_date := 3\<rparr>)
   \<and> main example_mean example_download
         (example_inputs\<lparr>selected_tickers := [], start_date := 5, end_date := 3\<rparr>)
       = ([Info_select_asset], None)
   \<and> Error_date_range \<notin> set (fst (main example_mean example_download
         (example_inputs\<lparr>selected_tickers := [], start_date := 5, end_date := 3\<rparr>)))"
  by (simp add: main_def example_inputs_def)

text \<open>
  C6, amended. Whenever the start date is not before the end date, the run never calls
  \<^verbatim>\<open>get_stock_data\<close> or the provider; it shows the date range error when a ticker is
  selected and the notice to select an asset when none is, and nothing else.
\<close>

theorem invalid_date_range_never_fetches:
  assumes "end_date u \<le> start_date u"
  shows "main fmean download u =
           ([if selected_tickers u = [] then Info_select_asset else Error_date_range], None)
         \<and> list_all (\<lambda>ev. \<not> is_fetch ev) (fst (main fmean download u))"
  using assms by (simp add: main_def)

theorem invalid_date_range_never_fetches_witness:
  "end_date (example_inputs\<lparr>start_date := 5\<rparr>) \<le> start_date (example_inputs\<lparr>start_date := 5\<rparr>)
   \<and> main example_mean example_download (example_inputs\<lparr>start_date := 5\<rparr>)
       = ([Error_date_range], None)"
  using invalid_date_range_never_fetches
    [of "example_inputs\<lparr>start_date := 5\<rparr>" example_mean example_download]
  by (simp add: example_inputs_def)

text \<open>
  C7. A dataset the fetcher returns has no row with a missing cell: for a non-empty
  ticker list it holds exactly the rows of the provider's frame in which every cell is
  present, after one provider call; for the empty ticker list the fetcher returns the
  empty frame and calls no provider.
\<close>

theorem get_stock_data_complete_rows:
  assumes "get_stock_data download tickers s e = (calls, Inr data)"
  shows "list_all (\<lambda>(d, cells). None \<notin> set cells) (frame_rows data)
         \<and> (tickers = [] \<longrightarrow> calls = [] \<and> data = DataFrame \<and> frame_empty data)
         \<and> (tickers \<noteq> [] \<longrightarrow>
              (\<exists>joined. download tickers s e = Inr joined \<and> calls = [Download tickers s e]
                 \<and> frame_rows data =
                     filter (\<lambda>(d, cells). None \<notin> set cells) (frame_rows joined)))
         \<and> get_stock_data download [] s e = ([], Inr DataFrame)"
proof (cases "tickers = []")
  case True
  with assms show ?thesis
    by (auto simp: get_stock_data_def DataFrame_def table_empty_def table_rows_def)
next
  case False
  with assms obtain joined where j: "download tickers s e = Inr joined"
    and d: "data = dropna joined" and c: "calls = [Download tickers s e]"
    by (auto simp: get_stock_data_def split: sum.splits)
  have complete: "(\<lambda>(d, cells). notna cells) = (\<lambda>(d, cells). None \<notin> set cells)"
    by (simp add: fun_eq_iff notna_iff)
  have rows: "frame_rows data = filter (\<lambda>(d, cells). None \<notin> set cells) (frame_rows joined)"
    by (simp add: d frame_rows_dropna complete)
  then have "list_all (\<lambda>(d, cells). None \<notin> set cells) (frame_rows data)"
    by (simp add: list_all_iff)
  with False j c rows show ?thesis
    by (simp add: get_stock_data_def)
qed

theorem get_stock_data_complete_rows_witness:
  "get_stock_data example_download [''A'', ''B''] 1 5
     = ([Download [''A'', ''B''] 1 5], Inr (dropna example_frame))
   \<and> frame_rows example_frame =
       [(1, [Some 1, Some 2, Some 1, Some 1, Some 7]),
        (2, [Some 2, Some 6, Some 2, Some 5, Some 8]),
        (3, [Some 3, Some 4, Some 1, Some 2, None]),
        (4, [Some 4, Some 5, Some 3, Some 4, Some 9])]
   \<and> frame_rows (dropna example_frame) =
       [(1, [Some 1, Some 2, Some 1, Some 1, Some 7]),
        (2, [Some 2, Some 6, Some 2, Some 5, Some 8]),
        (4, [Some 4, Some 5, Some 3, Some 4, Some 9])]"
proof -
  have run: "get_stock_data example_download [''A'', ''B''] 1 5
               = ([Download [''A'', ''B''] 1 5], Inr (dropna example_frame))"
    by (simp add: get_stock_data_def example_download_def)
  have rows: "frame_rows example_frame =
       [(1, [Some 1, Some 2, Some 1, Some 1, Some 7]),
        (2, [Some 2, Some 6, Some 2, Some 5, Some 8]),
        (3, [Some 3, Some 4, Some 1, Some 2, None]),
        (4, [Some 4, Some 5, Some 3, Some 4, Some 9])]"
    by (simp add: example_frame_def table_rows_def row_cells_def upt_rec)
  from get_stock_data_complete_rows [OF run] have
    "frame_rows (dropna example_frame) =
       filter (\<lambda>(d, cells). None \<notin> set cells) (frame_rows example_frame)"
    by (simp add: example_download_def)
  with run rows show ?thesis
    by simp
qed

text \<open>
  C8. With the moving average requested for period 20 on the four prices of ticker A,
  every point of the overlay is undefined, and with a level window of at least 1 the
  chart is drawn with its candlesticks and that overlay. With the support and resistance
  levels switched off the page passes window 0, the level detector raises after the
  overlay is computed, and no chart is drawn.
\<close>

theorem sma_chart_aborts_when_levels_disabled:
  "rolling_mean fmean [Some 1, Some 5, Some 2, Some 4] 20 = Inr [None, None, None, None]
   \<and> plot_candlestick fmean example_frame ''A'' 300 0 0 True 20 = Inl ValueError
   \<and> (\<exists>df' fig. plot_candlestick fmean example_frame ''A'' 300 1 3 True 20
                    = Inr (df', PlotlyChart fig)
         \<and> candle_close fig = [Some 1, Some 5, Some 2, Some 4]
         \<and> map_option snd (sma_trace fig) = Some [None, None, None, None])"
proof -
  have roll: "rolling_mean fmean [Some 1, Some 5, Some 2, Some 4] 20
                = Inr [None, None, None, None]"
    by (simp add: rolling_mean_def upt_rec)
  have off: "plot_candlestick fmean example_frame ''A'' 300 0 0 True 20 = Inl ValueError"
    by (simp add: page_defs upt_rec)
  have on: "\<exists>df' fig. plot_candlestick fmean example_frame ''A'' 300 1 3 True 20
                    = Inr (df', PlotlyChart fig)
         \<and> candle_close fig = [Some 1, Some 5, Some 2, Some 4]
         \<and> map_option snd (sma_trace fig) = Some [None, None, None, None]"
    by (simp add: page_defs upto.simps upt_rec)
  from roll off on show ?thesis
    by blast
qed

text \<open>
  C9. With the support and resistance levels switched off the page passes window 0 to
  the composer, the level detector raises, and the run ends inside the first cell whose
  ticker has data: ticker B of the example never gets a cell. (With the levels switched
  on, lemma \<open>grid_loop_places_every_ticker\<close> shows one cell per ticker, in selection
  order, in column \<open>i mod 3\<close>.)
\<close>

theorem grid_aborts_when_levels_disabled:
  "main fmean example_download (example_inputs\<lparr>sr_enabled := False\<rparr>) =
     ([Call_get_stock_data [''A'', ''B''] 1 5, Provider (Download [''A'', ''B''] 1 5),
       Markdown_viewing 1 5, Columns 3, In_column 0 (Subheader ''A'')],
      Some ValueError)"
  by (simp add: page_defs enumerate_eq_zip upt_rec)

end
